theory Spec2Isabelle
  imports Complex_Main "HOL-Library.Multiset"
begin

section \<open>Feature engineering notebook: data model\<close>

text \<open>
  The notebook \<^verbatim>\<open>02_feature_engineering.ipynb\<close> is straight-line pandas code over
  three tables. A table is modelled as the list of its rows, in row order; a row is a
  record of the columns the notebook reads. Numeric columns of floating type are
  modelled by exact rationals, and \<open>None\<close> stands for a cell that holds no finite number
  (pandas' NaN for a missing value, or the non-finite result of a division by zero).
  An exception raised by pandas or by Python is a value \<open>Inl e\<close>.
\<close>

datatype error = KeyError string | ValueError | NameError string | Untracked

text \<open>
  A row of \<^verbatim>\<open>MRegularSeasonCompactResults.csv\<close> and of
  \<^verbatim>\<open>MNCAATourneyCompactResults.csv\<close>. The files have further columns (day, venue,
  overtime) that no line of the notebook reads.
\<close>

record game =
  Season :: int
  WTeamID :: int
  WScore :: int
  LTeamID :: int
  LScore :: int

text \<open>A row of \<^verbatim>\<open>MNCAATourneySeeds.csv\<close>.\<close>

record seed_entry =
  seed_Season :: int
  Seed :: string
  TeamID :: int

text \<open>
  A pandas Series indexed by team id, as \<^verbatim>\<open>groupby(...).size()\<close> and
  \<^verbatim>\<open>groupby(...)[col].mean()\<close> return it: the name of the index and the
  (index, value) pairs in index order.
\<close>

record 'v series =
  index_name :: "string option"
  items :: "(int \<times> 'v) list"

text \<open>
  The two-column frame \<^verbatim>\<open>reset_index(name=...)\<close> makes of a Series: the former index
  becomes a column that carries the index's name, or the name \<^verbatim>\<open>index\<close> when the index
  has none.
\<close>

record 'v keyed =
  key_column :: string
  value_column :: string
  table_rows :: "(int \<times> 'v) list"

definition then_do :: "error + 'a \<Rightarrow> ('a \<Rightarrow> error + 'b) \<Rightarrow> error + 'b" where
  "then_do r f = (case r of Inl e \<Rightarrow> Inl e | Inr x \<Rightarrow> f x)"

section \<open>The pandas operations the notebook calls\<close>

text \<open>\<^verbatim>\<open>groupby(key)\<close> sorts the distinct keys in ascending order.\<close>

definition group_keys :: "('r \<Rightarrow> int) \<Rightarrow> 'r list \<Rightarrow> int list" where
  "group_keys key rows = sort (remdups (map key rows))"

definition groupby_size :: "string \<Rightarrow> ('r \<Rightarrow> int) \<Rightarrow> 'r list \<Rightarrow> nat series" where
  "groupby_size name key rows =
     \<lparr>index_name = Some name,
      items = map (\<lambda>k. (k, length (filter (\<lambda>r. key r = k) rows))) (group_keys key rows)\<rparr>"

text \<open>The mean of a column over one group; pandas gives NaN for no values.\<close>

definition mean :: "int list \<Rightarrow> rat option" where
  "mean xs = (if xs = [] then None else Some (of_int (sum_list xs) / of_nat (length xs)))"

definition groupby_mean ::
  "string \<Rightarrow> ('r \<Rightarrow> int) \<Rightarrow> ('r \<Rightarrow> int) \<Rightarrow> 'r list \<Rightarrow> rat option series" where
  "groupby_mean name key col rows =
     \<lparr>index_name = Some name,
      items = map (\<lambda>k. (k, mean (map col (filter (\<lambda>r. key r = k) rows)))) (group_keys key rows)\<rparr>"

definition get_fill :: "nat series \<Rightarrow> int \<Rightarrow> nat" where
  "get_fill s k = (case map_of (items s) k of None \<Rightarrow> 0 | Some v \<Rightarrow> v)"

text \<open>
  \<^verbatim>\<open>a.add(b, fill_value=0)\<close>. When the two indexes hold the same labels in the same
  order, pandas adds position by position and the result keeps the index of \<open>a\<close>, name
  included. Otherwise the two Series are aligned on the outer join of the indexes (for
  sorted indexes, the sorted union), a label missing on one side counts as 0, and the
  joined index keeps a name only when both indexes have the same name.
\<close>

definition series_add :: "nat series \<Rightarrow> nat series \<Rightarrow> nat series" where
  "series_add a b =
     (if map fst (items a) = map fst (items b)
      then \<lparr>index_name = index_name a,
            items = map (\<lambda>(k, v). (k, v + get_fill b k)) (items a)\<rparr>
      else \<lparr>index_name = (if index_name a = index_name b then index_name a else None),
            items = map (\<lambda>k. (k, get_fill a k + get_fill b k))
                      (sort (remdups (map fst (items a) @ map fst (items b))))\<rparr>)"

definition reset_index :: "string \<Rightarrow> 'v series \<Rightarrow> 'v keyed" where
  "reset_index name s =
     \<lparr>key_column = (case index_name s of None \<Rightarrow> ''index'' | Some n \<Rightarrow> n),
      value_column = name,
      table_rows = items s\<rparr>"

text \<open>
  \<^verbatim>\<open>left.merge(right, how="left")\<close> on one key: every left row is kept, in order; it is
  paired with each right row of the same key, in the right table's order, or with a
  missing right side when there is none.
\<close>

definition merge_left :: "('a \<Rightarrow> int) \<Rightarrow> ('b \<Rightarrow> int) \<Rightarrow> 'a list \<Rightarrow> 'b list \<Rightarrow> ('a \<times> 'b option) list" where
  "merge_left kl kr ls rs =
     concat (map (\<lambda>l. case filter (\<lambda>r. kr r = kl l) rs of
                         [] \<Rightarrow> [(l, None)]
                       | ms \<Rightarrow> map (\<lambda>r. (l, Some r)) ms) ls)"

text \<open>
  A left merge against a frame made by \<open>reset_index\<close>: the key named by
  \<^verbatim>\<open>right_on\<close> must be a column of the right frame, or pandas raises
  \<^verbatim>\<open>KeyError\<close>. The value column is never the key in the notebook; the merged row
  carries the right frame's value, missing when no right row matches.
\<close>

definition merge_on :: "('a \<Rightarrow> int) \<Rightarrow> string \<Rightarrow> 'a list \<Rightarrow> 'v keyed \<Rightarrow> error + ('a \<times> 'v option) list" where
  "merge_on kl right_on ls right =
     (if right_on = key_column right
      then Inr (map (\<lambda>(l, m). (l, map_option snd m)) (merge_left kl fst ls (table_rows right)))
      else Inl (KeyError right_on))"

definition truediv :: "nat \<Rightarrow> nat option \<Rightarrow> rat option" where
  "truediv a b =
     (case b of None \<Rightarrow> None
      | Some n \<Rightarrow> if n = 0 then None else Some (of_nat a / of_nat n))"

definition minus_nan :: "'a::minus option \<Rightarrow> 'a option \<Rightarrow> 'a option" where
  "minus_nan a b = (case a of None \<Rightarrow> None
                    | Some x \<Rightarrow> (case b of None \<Rightarrow> None | Some y \<Rightarrow> Some (x - y)))"

text \<open>A merged-in float column: a missing right side and a NaN value are both NaN.\<close>

definition join_nan :: "'a option option \<Rightarrow> 'a option" where
  "join_nan c = (case c of None \<Rightarrow> None | Some v \<Rightarrow> v)"

section \<open>Team Season Aggregator (second code cell)\<close>

record team_row =
  stats_WTeamID :: int
  Wins :: nat
  TotalGames :: "nat option"
  WinPercentage :: "rat option"
  AvgPointsScored :: "rat option"
  AvgPointsAllowed :: "rat option"
  PointDifferential :: "rat option"

definition win_counts :: "game list \<Rightarrow> nat keyed" where
  "win_counts season_results = reset_index ''Wins'' (groupby_size ''WTeamID'' WTeamID season_results)"

definition total_games :: "game list \<Rightarrow> nat keyed" where
  "total_games season_results =
     reset_index ''TotalGames''
       (series_add (groupby_size ''WTeamID'' WTeamID season_results)
                   (groupby_size ''LTeamID'' LTeamID season_results))"

definition avg_points_scored :: "game list \<Rightarrow> rat option keyed" where
  "avg_points_scored season_results =
     reset_index ''AvgPointsScored'' (groupby_mean ''WTeamID'' WTeamID WScore season_results)"

definition avg_points_allowed :: "game list \<Rightarrow> rat option keyed" where
  "avg_points_allowed season_results =
     reset_index ''AvgPointsAllowed'' (groupby_mean ''LTeamID'' LTeamID LScore season_results)"

text \<open>
  \<open>team_stats\<close> follows the cell line by line: \<open>win_counts\<close> merged with
  \<open>total_games\<close> on \<^verbatim>\<open>WTeamID\<close>, the win percentage, then the two averages merged in
  (the second one on the right key \<^verbatim>\<open>LTeamID\<close>, dropped afterwards), then the point
  differential.
\<close>

definition team_stats :: "game list \<Rightarrow> error + team_row list" where
  "team_stats season_results =
     then_do (merge_on fst ''WTeamID'' (table_rows (win_counts season_results))
                (total_games season_results)) (\<lambda>m1.
     let s1 = map (\<lambda>((k, w), tg). (k, w, tg, truediv w tg)) m1 in
     then_do (merge_on fst ''WTeamID'' s1 (avg_points_scored season_results)) (\<lambda>m2.
     then_do (merge_on (fst \<circ> fst) ''LTeamID'' m2 (avg_points_allowed season_results)) (\<lambda>m3.
     Inr (map (\<lambda>(((k, w, tg, wp), aps), apa).
            \<lparr>stats_WTeamID = k, Wins = w, TotalGames = tg, WinPercentage = wp,
             AvgPointsScored = join_nan aps, AvgPointsAllowed = join_nan apa,
             PointDifferential = minus_nan (join_nan aps) (join_nan apa)\<rparr>) m3))))"

section \<open>Seed Annotator (third code cell)\<close>

text \<open>
  The seed rank is \<^verbatim>\<open>int(x[1:3])\<close>. Python's \<^verbatim>\<open>int\<close> on a string, in base 10, accepts
  optional whitespace, an optional sign, then decimal digits in which single underscores
  may separate digits, then optional whitespace; anything else raises
  \<^verbatim>\<open>ValueError\<close>. A character is modelled by its code point below 256. Before
  parsing, CPython copies code points below 127, turns the two other whitespace
  characters of that range (U+0085, U+00A0) into a space and rejects the rest; the
  parser then skips the six ASCII whitespace characters. The notebook calls \<^verbatim>\<open>int\<close>
  on at most two characters, so its limit on the number of digits plays no part.
\<close>

definition is_digit :: "char \<Rightarrow> bool" where
  "is_digit c = (48 \<le> (of_char c :: nat) \<and> (of_char c :: nat) \<le> 57)"

definition digit_val :: "char \<Rightarrow> nat" where
  "digit_val c = of_char c - 48"

definition is_space :: "char \<Rightarrow> bool" where
  "is_space c = ((of_char c :: nat) \<in> {9, 10, 11, 12, 13, 32})"

definition to_ascii :: "char \<Rightarrow> char" where
  "to_ascii c =
     (if (of_char c :: nat) < 127 then c
      else if (of_char c :: nat) = 133 \<or> (of_char c :: nat) = 160 then CHR '' ''
      else CHR ''?'')"

definition strip :: "string \<Rightarrow> string" where
  "strip s = rev (dropWhile is_space (rev (dropWhile is_space s)))"

fun int_digits :: "nat \<Rightarrow> string \<Rightarrow> nat option" where
  "int_digits acc [] = Some acc"
| "int_digits acc [c] = (if is_digit c then Some (10 * acc + digit_val c) else None)"
| "int_digits acc (c # d # cs) =
     (if is_digit c then int_digits (10 * acc + digit_val c) (d # cs)
      else if c = CHR ''_'' \<and> is_digit d then int_digits (10 * acc + digit_val d) cs
      else None)"

definition int_body :: "string \<Rightarrow> nat option" where
  "int_body s = (case s of [] \<Rightarrow> None
                 | c # cs \<Rightarrow> if is_digit c then int_digits (digit_val c) cs else None)"

definition py_int :: "string \<Rightarrow> error + int" where
  "py_int s =
     (case strip (map to_ascii s) of
        [] \<Rightarrow> Inl ValueError
      | c # cs \<Rightarrow>
          (case (if c = CHR ''-'' \<or> c = CHR ''+'' then int_body cs else int_body (c # cs)) of
             None \<Rightarrow> Inl ValueError
           | Some n \<Rightarrow> Inr (if c = CHR ''-'' then - int n else int n)))"

text \<open>The slice \<^verbatim>\<open>x[1:3]\<close> never fails: it is cut short when the string is.\<close>

definition seed_value :: "string \<Rightarrow> error + int" where
  "seed_value x = py_int (take 2 (drop 1 x))"

text \<open>
  \<^verbatim>\<open>seeds["Seed"].apply(...)\<close> calls the function row by row; the first exception ends
  the cell. On success the table \<open>seeds\<close> has the new column \<^verbatim>\<open>SeedValue\<close>.
\<close>

fun apply_seed_value :: "seed_entry list \<Rightarrow> error + (seed_entry \<times> int) list" where
  "apply_seed_value [] = Inr []"
| "apply_seed_value (e # es) =
     then_do (seed_value (Seed e)) (\<lambda>v.
     then_do (apply_seed_value es) (\<lambda>vs. Inr ((e, v) # vs)))"

record seeded_row = team_row +
  SeedValue :: "int option"

text \<open>
  \<^verbatim>\<open>team_stats.merge(seeds[["TeamID", "SeedValue"]], left_on="WTeamID",
  right_on="TeamID", how="left")\<close>, then the column \<^verbatim>\<open>TeamID\<close> is dropped.
\<close>

definition seed_annotator :: "team_row list \<Rightarrow> (seed_entry \<times> int) list \<Rightarrow> seeded_row list" where
  "seed_annotator stats seeds =
     map (\<lambda>(t, m).
            \<lparr>stats_WTeamID = stats_WTeamID t, Wins = Wins t, TotalGames = TotalGames t,
             WinPercentage = WinPercentage t, AvgPointsScored = AvgPointsScored t,
             AvgPointsAllowed = AvgPointsAllowed t, PointDifferential = PointDifferential t,
             SeedValue = map_option snd m\<rparr>)
         (merge_left stats_WTeamID fst stats (map (\<lambda>(e, v). (TeamID e, v)) seeds))"

section \<open>Matchup Joiner (fourth code cell)\<close>

text \<open>
  A tournament row with the winner's and the loser's statistics attached: the columns
  renamed with \<^verbatim>\<open>W_\<close> come from \<open>W\<close>, those renamed with \<^verbatim>\<open>L_\<close> from \<open>L\<close>. A side with
  no statistics row holds NaN in all its columns.
\<close>

record joined =
  matchup :: game
  W :: "seeded_row option"
  L :: "seeded_row option"

definition matchup_joiner :: "game list \<Rightarrow> seeded_row list \<Rightarrow> joined list" where
  "matchup_joiner tourney_results stats =
     map (\<lambda>((g, w), l). \<lparr>matchup = g, W = w, L = l\<rparr>)
       (merge_left (LTeamID \<circ> fst) stats_WTeamID
          (merge_left WTeamID stats_WTeamID tourney_results stats) stats)"

definition column :: "('r \<Rightarrow> 'a option) \<Rightarrow> 'r option \<Rightarrow> 'a option" where
  "column col side = (case side of None \<Rightarrow> None | Some r \<Rightarrow> col r)"

section \<open>Differential Feature Builder (fifth code cell)\<close>

record diff_row =
  WinPercentage_Diff :: "rat option"
  AvgPointsScored_Diff :: "rat option"
  AvgPointsAllowed_Diff :: "rat option"
  PointDifferential_Diff :: "rat option"
  SeedValue_Diff :: "int option"

record feature_row = diff_row +
  Result :: int

definition differences :: "joined \<Rightarrow> diff_row" where
  "differences j =
     \<lparr>WinPercentage_Diff = minus_nan (column WinPercentage (W j)) (column WinPercentage (L j)),
      AvgPointsScored_Diff = minus_nan (column AvgPointsScored (W j)) (column AvgPointsScored (L j)),
      AvgPointsAllowed_Diff = minus_nan (column AvgPointsAllowed (W j)) (column AvgPointsAllowed (L j)),
      PointDifferential_Diff =
        minus_nan (column PointDifferential (W j)) (column PointDifferential (L j)),
      SeedValue_Diff = minus_nan (column SeedValue (W j)) (column SeedValue (L j))\<rparr>"

definition model_row :: "diff_row \<Rightarrow> feature_row" where
  "model_row d =
     \<lparr>WinPercentage_Diff = WinPercentage_Diff d, AvgPointsScored_Diff = AvgPointsScored_Diff d,
      AvgPointsAllowed_Diff = AvgPointsAllowed_Diff d,
      PointDifferential_Diff = PointDifferential_Diff d,
      SeedValue_Diff = SeedValue_Diff d, Result = 1\<rparr>"

definition model_data :: "joined list \<Rightarrow> feature_row list" where
  "model_data tourney_results = map (\<lambda>j. model_row (differences j)) tourney_results"

section \<open>The whole pipeline\<close>

text \<open>The cells in order, as one function of the three loaded tables.\<close>

definition joined_table :: "game list \<Rightarrow> game list \<Rightarrow> seed_entry list \<Rightarrow> error + joined list" where
  "joined_table season_results tourney_results seeds =
     then_do (team_stats season_results) (\<lambda>stats.
     then_do (apply_seed_value seeds) (\<lambda>valued.
     Inr (matchup_joiner tourney_results (seed_annotator stats valued))))"

definition pipeline :: "game list \<Rightarrow> game list \<Rightarrow> seed_entry list \<Rightarrow> error + feature_row list" where
  "pipeline season_results tourney_results seeds =
     then_do (joined_table season_results tourney_results seeds) (\<lambda>js. Inr (model_data js))"

section \<open>The notebook as cells over kernel variables\<close>

text \<open>
  A Jupyter kernel keeps the global variables between cell executions, and the notebook
  rebinds three of them to tables of another shape as it goes: \<^verbatim>\<open>tourney_results\<close>
  (loaded, then joined, then with the difference columns), \<^verbatim>\<open>seeds\<close> (loaded, then
  with \<^verbatim>\<open>SeedValue\<close>) and \<^verbatim>\<open>team_stats\<close> (aggregated, then seeded). A variable that
  is not bound is \<open>None\<close>, and reading it raises \<^verbatim>\<open>NameError\<close>. The variables
  \<^verbatim>\<open>win_counts\<close>, \<^verbatim>\<open>total_games\<close>, \<^verbatim>\<open>avg_points_scored\<close> and
  \<^verbatim>\<open>avg_points_allowed\<close> are read only in the cell that binds them and are kept
  local to it; \<^verbatim>\<open>teams\<close> is loaded and never read.
\<close>

datatype tourney_tbl = Raw "game list" | Joined "joined list" | Featured "(joined \<times> diff_row) list"

datatype seeds_tbl = Unvalued "seed_entry list" | Valued "(seed_entry \<times> int) list"

datatype stats_tbl = Stats "team_row list" | Seeded "seeded_row list"

record files =
  season_file :: "game list"
  tourney_file :: "game list"
  seeds_file :: "seed_entry list"

record kernel =
  v_season_results :: "game list option"
  v_tourney_results :: "tourney_tbl option"
  v_seeds :: "seeds_tbl option"
  v_team_stats :: "stats_tbl option"
  v_model_data :: "feature_row list option"

text \<open>First code cell: the three \<^verbatim>\<open>pd.read_csv\<close> calls whose tables are read later.\<close>

definition cell_load :: "files \<Rightarrow> kernel \<Rightarrow> error + kernel" where
  "cell_load f k =
     Inr (k\<lparr>v_season_results := Some (season_file f),
            v_tourney_results := Some (Raw (tourney_file f)),
            v_seeds := Some (Unvalued (seeds_file f))\<rparr>)"

definition cell_team_stats :: "kernel \<Rightarrow> error + kernel" where
  "cell_team_stats k =
     (case v_season_results k of
        None \<Rightarrow> Inl (NameError ''season_results'')
      | Some gs \<Rightarrow> then_do (team_stats gs) (\<lambda>ts. Inr (k\<lparr>v_team_stats := Some (Stats ts)\<rparr>)))"

text \<open>
  Third code cell. Assigning the column \<^verbatim>\<open>SeedValue\<close> overwrites it when \<open>seeds\<close>
  already has one. Merging the seeds into a \<open>team_stats\<close> that already has a
  \<^verbatim>\<open>SeedValue\<close> column gives a table with suffixed columns, which is outside this
  model (\<open>Untracked\<close>); a run from the first cell never gets there.
\<close>

definition cell_seeds :: "kernel \<Rightarrow> error + kernel" where
  "cell_seeds k =
     (case v_seeds k of
        None \<Rightarrow> Inl (NameError ''seeds'')
      | Some tbl \<Rightarrow>
          then_do (apply_seed_value (case tbl of Unvalued es \<Rightarrow> es | Valued vs \<Rightarrow> map fst vs)) (\<lambda>vs.
            (case v_team_stats k of
               None \<Rightarrow> Inl (NameError ''team_stats'')
             | Some (Stats ts) \<Rightarrow>
                 Inr (k\<lparr>v_seeds := Some (Valued vs),
                        v_team_stats := Some (Seeded (seed_annotator ts vs))\<rparr>)
             | Some (Seeded ss) \<Rightarrow> Inl Untracked)))"

text \<open>
  Fourth code cell. A \<open>tourney_results\<close> that was already joined has the columns
  \<^verbatim>\<open>WTeamID_x\<close> and no \<^verbatim>\<open>WTeamID\<close>, so the merge raises \<^verbatim>\<open>KeyError\<close>. Joining a
  \<open>team_stats\<close> without \<^verbatim>\<open>SeedValue\<close> is outside this model.
\<close>

definition cell_join :: "kernel \<Rightarrow> error + kernel" where
  "cell_join k =
     (case v_tourney_results k of
        None \<Rightarrow> Inl (NameError ''tourney_results'')
      | Some tt \<Rightarrow>
          (case v_team_stats k of
             None \<Rightarrow> Inl (NameError ''team_stats'')
           | Some st \<Rightarrow>
               (case tt of
                  Raw t \<Rightarrow>
                    (case st of
                       Seeded ss \<Rightarrow> Inr (k\<lparr>v_tourney_results := Some (Joined (matchup_joiner t ss))\<rparr>)
                     | Stats ts \<Rightarrow> Inl Untracked)
                | Joined js \<Rightarrow> Inl (KeyError ''WTeamID'')
                | Featured fs \<Rightarrow> Inl (KeyError ''WTeamID''))))"

text \<open>
  Fifth code cell: the five difference columns are assigned on \<open>tourney_results\<close>
  itself, then \<open>model_data\<close> is a copy of these columns with the column
  \<^verbatim>\<open>Result\<close> set to 1.
\<close>

definition cell_features :: "kernel \<Rightarrow> error + kernel" where
  "cell_features k =
     (case v_tourney_results k of
        None \<Rightarrow> Inl (NameError ''tourney_results'')
      | Some (Raw t) \<Rightarrow> Inl (KeyError ''W_WinPercentage'')
      | Some (Joined js) \<Rightarrow>
          Inr (k\<lparr>v_tourney_results := Some (Featured (map (\<lambda>j. (j, differences j)) js)),
                 v_model_data := Some (model_data js)\<rparr>)
      | Some (Featured fs) \<Rightarrow>
          Inr (k\<lparr>v_tourney_results := Some (Featured (map (\<lambda>j. (j, differences j)) (map fst fs))),
                 v_model_data := Some (model_data (map fst fs))\<rparr>))"

text \<open>
  The cells of the pipeline proper, from the aggregation to \<open>model_data\<close>, executed in
  order on the kernel as it stands; an exception stops the execution.
\<close>

definition run_pipeline_cells :: "kernel \<Rightarrow> error + kernel" where
  "run_pipeline_cells k =
     then_do (cell_team_stats k) (\<lambda>k2.
     then_do (cell_seeds k2) (\<lambda>k3.
     then_do (cell_join k3) cell_features))"

text \<open>Running the notebook from the first cell to the last.\<close>

definition run_notebook :: "files \<Rightarrow> kernel \<Rightarrow> error + kernel" where
  "run_notebook f k = then_do (cell_load f k) run_pipeline_cells"


section \<open>Concrete tables\<close>

text \<open>One game: team 1 beat team 2, so team 2 only lost and team 1 only won.\<close>

definition loss_only_season :: "game list" where
  "loss_only_season = [\<lparr>Season = 2020, WTeamID = 1, WScore = 80, LTeamID = 2, LScore = 60\<rparr>]"

text \<open>Two games of season 2020 between teams 1 and 2, one win each.\<close>

definition two_team_season :: "game list" where
  "two_team_season =
     [\<lparr>Season = 2020, WTeamID = 1, WScore = 80, LTeamID = 2, LScore = 60\<rparr>,
      \<lparr>Season = 2020, WTeamID = 2, WScore = 70, LTeamID = 1, LScore = 50\<rparr>]"

definition two_team_stats :: "team_row list" where
  "two_team_stats =
     [\<lparr>stats_WTeamID = 1, Wins = 1, TotalGames = Some 2, WinPercentage = Some (1 / 2),
       AvgPointsScored = Some 80, AvgPointsAllowed = Some 50, PointDifferential = Some 30\<rparr>,
      \<lparr>stats_WTeamID = 2, Wins = 1, TotalGames = Some 2, WinPercentage = Some (1 / 2),
       AvgPointsScored = Some 70, AvgPointsAllowed = Some 60, PointDifferential = Some 10\<rparr>]"





text \<open>
  The end-to-end scenario of the specification. Team A is 1 and team B is 2. The
  scenario names no opponents, and no pairing of A's winning scores with B's losing
  scores keeps every winning score above the losing one, so A's and B's regular-season
  games are played against two further teams, 3 and 4.
\<close>

definition scenario_season :: "game list" where
  "scenario_season =
     [\<lparr>Season = 2020, WTeamID = 1, WScore = 70, LTeamID = 3, LScore = 50\<rparr>,
      \<lparr>Season = 2020, WTeamID = 1, WScore = 80, LTeamID = 3, LScore = 50\<rparr>,
      \<lparr>Season = 2020, WTeamID = 1, WScore = 90, LTeamID = 3, LScore = 50\<rparr>,
      \<lparr>Season = 2020, WTeamID = 3, WScore = 61, LTeamID = 1, LScore = 60\<rparr>,
      \<lparr>Season = 2020, WTeamID = 2, WScore = 65, LTeamID = 4, LScore = 50\<rparr>,
      \<lparr>Season = 2020, WTeamID = 4, WScore = 71, LTeamID = 2, LScore = 70\<rparr>,
      \<lparr>Season = 2020, WTeamID = 4, WScore = 76, LTeamID = 2, LScore = 75\<rparr>,
      \<lparr>Season = 2020, WTeamID = 4, WScore = 81, LTeamID = 2, LScore = 80\<rparr>]"

definition scenario_tourney :: "game list" where
  "scenario_tourney = [\<lparr>Season = 2020, WTeamID = 1, WScore = 88, LTeamID = 2, LScore = 75\<rparr>]"

definition scenario_seeds :: "seed_entry list" where
  "scenario_seeds = [\<lparr>seed_Season = 2020, Seed = ''W02'', TeamID = 1\<rparr>,
                     \<lparr>seed_Season = 2020, Seed = ''W07'', TeamID = 2\<rparr>]"

definition scenario_files :: files where
  "scenario_files =
     \<lparr>season_file = scenario_season, tourney_file = scenario_tourney, seeds_file = scenario_seeds\<rparr>"

text \<open>A kernel that has run nothing yet, and the joined row of the scenario with its mirror.\<close>

definition fresh_kernel :: kernel where
  "fresh_kernel =
     \<lparr>v_season_results = None, v_tourney_results = None, v_seeds = None,
      v_team_stats = None, v_model_data = None\<rparr>"

definition scenario_A :: seeded_row where
  "scenario_A =
     \<lparr>stats_WTeamID = 1, Wins = 3, TotalGames = Some 4, WinPercentage = Some (3 / 4),
      AvgPointsScored = Some 80, AvgPointsAllowed = Some 60, PointDifferential = Some 20,
      SeedValue = Some 2\<rparr>"

definition scenario_B :: seeded_row where
  "scenario_B =
     \<lparr>stats_WTeamID = 2, Wins = 1, TotalGames = Some 4, WinPercentage = Some (1 / 4),
      AvgPointsScored = Some 65, AvgPointsAllowed = Some 75, PointDifferential = Some (- 10),
      SeedValue = Some 7\<rparr>"

definition scenario_joined :: joined where
  "scenario_joined =
     \<lparr>matchup = \<lparr>Season = 2020, WTeamID = 1, WScore = 88, LTeamID = 2, LScore = 75\<rparr>,
      W = Some scenario_A, L = Some scenario_B\<rparr>"

definition scenario_mirrored :: joined where
  "scenario_mirrored =
     \<lparr>matchup = \<lparr>Season = 2020, WTeamID = 2, WScore = 75, LTeamID = 1, LScore = 88\<rparr>,
      W = Some scenario_B, L = Some scenario_A\<rparr>"

section \<open>Grouping and merging\<close>

lemmas agg_defs = team_stats_def merge_on_def merge_left_def win_counts_def total_games_def
  avg_points_scored_def avg_points_allowed_def reset_index_def groupby_size_def groupby_mean_def
  group_keys_def series_add_def get_fill_def mean_def truediv_def minus_nan_def join_nan_def
  then_do_def

lemmas seed_defs = seed_value_def py_int_def strip_def to_ascii_def is_digit_def is_space_def
  int_body_def digit_val_def

lemmas pipe_defs = pipeline_def joined_table_def seed_annotator_def matchup_joiner_def
  model_data_def model_row_def differences_def column_def

lemma distinct_group_keys: "distinct (group_keys key rows)"
  by (simp add: group_keys_def)

lemma set_group_keys: "set (group_keys key rows) = key ` set rows"
  by (simp add: group_keys_def)

lemma filter_fst_graph:
  "distinct ks \<Longrightarrow>
   filter (\<lambda>r. fst r = k) (map (\<lambda>k. (k, f k)) ks) = (if k \<in> set ks then [(k, f k)] else [])"
  by (induction ks) auto

lemma merge_left_graph:
  "distinct ks \<Longrightarrow>
   merge_left kl fst ls (map (\<lambda>k. (k, f k)) ks)
     = map (\<lambda>l. (l, if kl l \<in> set ks then Some (kl l, f (kl l)) else None)) ls"
  by (induction ls) (auto simp: merge_left_def filter_fst_graph)

lemma map_of_graph:
  "map_of (map (\<lambda>k. (k, f k)) ks) k = (if k \<in> set ks then Some (f k) else None)"
  by (induction ks) auto

lemma merge_on_graph:
  "distinct ks \<Longrightarrow> key_column right = right_on \<Longrightarrow>
   table_rows right = map (\<lambda>k. (k, f k)) ks \<Longrightarrow>
   merge_on kl right_on ls right
     = Inr (map (\<lambda>l. (l, if kl l \<in> set ks then Some (f (kl l)) else None)) ls)"
  by (simp add: merge_on_def merge_left_graph)

lemma filter_nonempty_length: "x \<in> set xs \<Longrightarrow> P x \<Longrightarrow> 0 < length (filter P xs)"
  by (induction xs) auto








section \<open>The aggregator in closed form\<close>

lemma get_fill_size:
  "get_fill (groupby_size n key rows) k = length (filter (\<lambda>r. key r = k) rows)"
proof (cases "k \<in> key ` set rows")
  case True
  then show ?thesis
    by (simp add: get_fill_def groupby_size_def map_of_graph set_group_keys)
next
  case False
  then have "filter (\<lambda>r. key r = k) rows = []"
    by (auto simp: filter_empty_conv)
  with False show ?thesis
    by (simp add: get_fill_def groupby_size_def map_of_graph set_group_keys)
qed

lemma total_games_rows:
  "group_keys WTeamID gs = group_keys LTeamID gs \<Longrightarrow>
   total_games gs =
     \<lparr>key_column = ''WTeamID'', value_column = ''TotalGames'',
      table_rows = map (\<lambda>k. (k, length (filter (\<lambda>g. WTeamID g = k) gs)
                                 + length (filter (\<lambda>g. LTeamID g = k) gs)))
                     (group_keys WTeamID gs)\<rparr>"
  unfolding total_games_def reset_index_def series_add_def
  by (simp add: get_fill_size) (simp add: groupby_size_def o_def)

text \<open>
  When some team only won or only lost, the two indexes differ, the sum's index has no
  name, and \<open>total_games\<close> has no column \<^verbatim>\<open>WTeamID\<close> to merge on.
\<close>

lemma total_games_key:
  "group_keys WTeamID gs \<noteq> group_keys LTeamID gs \<Longrightarrow> key_column (total_games gs) = ''index''"
  unfolding total_games_def reset_index_def series_add_def
  by (simp add: groupby_size_def o_def)

lemma win_counts_rows:
  "table_rows (win_counts gs)
     = map (\<lambda>k. (k, length (filter (\<lambda>g. WTeamID g = k) gs))) (group_keys WTeamID gs)"
  by (simp add: win_counts_def reset_index_def groupby_size_def)

lemma avg_points_scored_frame:
  "key_column (avg_points_scored gs) = ''WTeamID''"
  "table_rows (avg_points_scored gs)
     = map (\<lambda>k. (k, mean (map WScore (filter (\<lambda>g. WTeamID g = k) gs)))) (group_keys WTeamID gs)"
  by (simp_all add: avg_points_scored_def reset_index_def groupby_mean_def)

lemma avg_points_allowed_frame:
  "key_column (avg_points_allowed gs) = ''LTeamID''"
  "table_rows (avg_points_allowed gs)
     = map (\<lambda>k. (k, mean (map LScore (filter (\<lambda>g. LTeamID g = k) gs)))) (group_keys LTeamID gs)"
  by (simp_all add: avg_points_allowed_def reset_index_def groupby_mean_def)

lemma team_stats_fails:
  "group_keys WTeamID gs \<noteq> group_keys LTeamID gs \<Longrightarrow> team_stats gs = Inl (KeyError ''WTeamID'')"
  by (simp add: team_stats_def merge_on_def total_games_key then_do_def)

lemma team_stats_rows:
  assumes "group_keys WTeamID gs = group_keys LTeamID gs"
  shows "team_stats gs = Inr (map (\<lambda>k.
      \<lparr>stats_WTeamID = k,
       Wins = length (filter (\<lambda>g. WTeamID g = k) gs),
       TotalGames = Some (length (filter (\<lambda>g. WTeamID g = k) gs)
                          + length (filter (\<lambda>g. LTeamID g = k) gs)),
       WinPercentage = truediv (length (filter (\<lambda>g. WTeamID g = k) gs))
          (Some (length (filter (\<lambda>g. WTeamID g = k) gs)
                 + length (filter (\<lambda>g. LTeamID g = k) gs))),
       AvgPointsScored = mean (map WScore (filter (\<lambda>g. WTeamID g = k) gs)),
       AvgPointsAllowed = mean (map LScore (filter (\<lambda>g. LTeamID g = k) gs)),
       PointDifferential = minus_nan (mean (map WScore (filter (\<lambda>g. WTeamID g = k) gs)))
                                     (mean (map LScore (filter (\<lambda>g. LTeamID g = k) gs)))\<rparr>)
     (group_keys WTeamID gs))"
proof -
  have tg: "key_column (total_games gs) = ''WTeamID''"
    "table_rows (total_games gs)
       = map (\<lambda>k. (k, length (filter (\<lambda>g. WTeamID g = k) gs)
                      + length (filter (\<lambda>g. LTeamID g = k) gs)))
          (group_keys WTeamID gs)"
    using total_games_rows [OF assms] by simp_all
  have d: "distinct (group_keys WTeamID gs)" "distinct (group_keys LTeamID gs)"
    by (rule distinct_group_keys)+
  show ?thesis
    unfolding team_stats_def
    by (simp add: merge_on_graph [OF d(1) tg] win_counts_rows then_do_def Let_def o_def
          merge_on_graph [OF d(1) avg_points_scored_frame]
          merge_on_graph [OF d(2) avg_points_allowed_frame] join_nan_def assms [symmetric])
qed


lemma team_stats_fields:
  assumes "team_stats gs = Inr rows" and "r \<in> set rows"
  shows "stats_WTeamID r \<in> WTeamID ` set gs"
    and "Wins r = length (filter (\<lambda>g. WTeamID g = stats_WTeamID r) gs)"
    and "TotalGames r = Some (Wins r + length (filter (\<lambda>g. LTeamID g = stats_WTeamID r) gs))"
    and "WinPercentage r = truediv (Wins r) (TotalGames r)"
    and "AvgPointsScored r = mean (map WScore (filter (\<lambda>g. WTeamID g = stats_WTeamID r) gs))"
    and "AvgPointsAllowed r = mean (map LScore (filter (\<lambda>g. LTeamID g = stats_WTeamID r) gs))"
    and "PointDifferential r = minus_nan (AvgPointsScored r) (AvgPointsAllowed r)"
proof -
  have eq: "group_keys WTeamID gs = group_keys LTeamID gs"
    using assms(1) team_stats_fails by fastforce
  from assms team_stats_rows [OF eq]
  show "stats_WTeamID r \<in> WTeamID ` set gs"
    and "Wins r = length (filter (\<lambda>g. WTeamID g = stats_WTeamID r) gs)"
    and "TotalGames r = Some (Wins r + length (filter (\<lambda>g. LTeamID g = stats_WTeamID r) gs))"
    and "WinPercentage r = truediv (Wins r) (TotalGames r)"
    and "AvgPointsScored r = mean (map WScore (filter (\<lambda>g. WTeamID g = stats_WTeamID r) gs))"
    and "AvgPointsAllowed r = mean (map LScore (filter (\<lambda>g. LTeamID g = stats_WTeamID r) gs))"
    and "PointDifferential r = minus_nan (AvgPointsScored r) (AvgPointsAllowed r)"
    by (auto simp: set_group_keys)
qed

lemma team_stats_two_team_season: "team_stats two_team_season = Inr two_team_stats"
  by (simp add: two_team_season_def two_team_stats_def agg_defs)

section \<open>Seasons are never read\<close>






lemma apply_seed_value_entries:
  "apply_seed_value es = Inr vs \<Longrightarrow> map fst vs = es"
  by (induction es arbitrary: vs) (auto simp: then_do_def split: sum.splits)



section \<open>Rows of the joined table\<close>





















section \<open>Seed codes\<close>

lemma to_ascii_digit: "is_digit c \<Longrightarrow> to_ascii c = c"
  by (simp add: to_ascii_def is_digit_def)

lemma digit_not_space: "is_digit c \<Longrightarrow> \<not> is_space c"
  by (auto simp: is_digit_def is_space_def)

lemma digit_not_sign: "is_digit c \<Longrightarrow> c \<noteq> CHR ''-'' \<and> c \<noteq> CHR ''+''"
  by (auto simp: is_digit_def)




section \<open>The statistics of one team\<close>

lemma group_keys_cong_set:
  assumes "k1 ` set rows = k2 ` set rows"
  shows "group_keys k1 rows = group_keys k2 rows"
proof -
  have "group_keys k1 rows = sorted_list_of_set (k1 ` set rows)"
    by (simp add: group_keys_def sorted_list_of_set_sort_remdups [symmetric])
  also have "\<dots> = sorted_list_of_set (k2 ` set rows)"
    by (simp only: assms)
  also have "\<dots> = group_keys k2 rows"
    by (simp add: group_keys_def sorted_list_of_set_sort_remdups [symmetric])
  finally show ?thesis .
qed

lemma apply_seed_value_total:
  "(\<forall>e\<in>set es. \<exists>v. seed_value (Seed e) = Inr v) \<Longrightarrow> \<exists>vs. apply_seed_value es = Inr vs"
  by (induction es) (auto simp: then_do_def)

lemma apply_seed_value_filter:
  "apply_seed_value es = Inr vs \<Longrightarrow>
   apply_seed_value (filter P es) = Inr (filter (\<lambda>(e, v). P e) vs)"
  by (induction es arbitrary: vs) (auto simp: then_do_def split: sum.splits)

lemma filter_eq_distinct: "distinct xs \<Longrightarrow> x \<in> set xs \<Longrightarrow> filter (\<lambda>k. k = x) xs = [x]"
  by (induction xs) (auto simp: filter_empty_conv)

lemma merge_left_filter:
  "filter (\<lambda>(l, m). kl l = k) (merge_left kl kr ls rs)
     = merge_left kl kr (filter (\<lambda>l. kl l = k) ls) (filter (\<lambda>r. kr r = k) rs)"
proof (induction ls)
  case Nil
  then show ?case by (simp add: merge_left_def)
next
  case (Cons l ls)
  have piece: "filter (\<lambda>(l, m). kl l = k)
        (case filter (\<lambda>r. kr r = kl l) rs of [] \<Rightarrow> [(l, None)] | ms \<Rightarrow> map (\<lambda>r. (l, Some r)) ms)
      = (if kl l = k
         then (case filter (\<lambda>r. kr r = kl l) rs of [] \<Rightarrow> [(l, None)] | ms \<Rightarrow> map (\<lambda>r. (l, Some r)) ms)
         else [])"
    by (cases "filter (\<lambda>r. kr r = kl l) rs") (auto simp: filter_empty_conv)
  have same: "filter (\<lambda>r. kr r = k) (filter (\<lambda>r. kr r = k) rs) = filter (\<lambda>r. kr r = k) rs"
    by simp
  from Cons piece show ?case
    by (auto simp: merge_left_def same)
qed

lemma seed_annotator_filter:
  "filter (\<lambda>r. stats_WTeamID r = k) (seed_annotator ts vs)
     = seed_annotator (filter (\<lambda>t. stats_WTeamID t = k) ts) (filter (\<lambda>(e, v). TeamID e = k) vs)"
proof -
  have "filter (\<lambda>r. fst r = k) (map (\<lambda>(e, v). (TeamID e, v)) vs)
      = map (\<lambda>(e, v). (TeamID e, v)) (filter (\<lambda>(e, v). TeamID e = k) vs)"
    by (induction vs) auto
  then show ?thesis
    unfolding seed_annotator_def
    by (simp add: filter_map o_def case_prod_unfold merge_left_filter [unfolded case_prod_unfold])
qed


lemma mean_mset:
  assumes "mset xs = M" "M \<noteq> {#}"
  shows "mean xs = Some (of_int (sum_mset M) / of_nat (size M))"
proof -
  from assms have "xs \<noteq> []" by auto
  moreover from assms(1) have "sum_list xs = sum_mset M" "length xs = size M"
    by (auto simp: sum_mset_sum_list [symmetric])
  ultimately show ?thesis
    by (simp add: mean_def)
qed

lemma matchup_joiner_single:
  assumes "filter (\<lambda>r. stats_WTeamID r = WTeamID g) st = [a]"
    and "filter (\<lambda>r. stats_WTeamID r = LTeamID g) st = [b]"
  shows "matchup_joiner [g] st = [\<lparr>matchup = g, W = Some a, L = Some b\<rparr>]"
  using assms by (simp add: matchup_joiner_def merge_left_def)

lemma seeded_row_of_team:
  assumes ts: "team_stats gs = Inr ts"
    and vs: "apply_seed_value seeds = Inr vs"
    and won: "mset (map WScore (filter (\<lambda>x. WTeamID x = k) gs)) = Ws" "Ws \<noteq> {#}"
    and lost: "mset (map LScore (filter (\<lambda>x. LTeamID x = k) gs)) = Ls" "Ls \<noteq> {#}"
    and code: "map Seed (filter (\<lambda>e. TeamID e = k) seeds) = [c]" "seed_value c = Inr v"
  shows "filter (\<lambda>r. stats_WTeamID r = k) (seed_annotator ts vs) =
     [\<lparr>stats_WTeamID = k, Wins = size Ws, TotalGames = Some (size Ws + size Ls),
       WinPercentage = truediv (size Ws) (Some (size Ws + size Ls)),
       AvgPointsScored = Some (of_int (sum_mset Ws) / of_nat (size Ws)),
       AvgPointsAllowed = Some (of_int (sum_mset Ls) / of_nat (size Ls)),
       PointDifferential = Some (of_int (sum_mset Ws) / of_nat (size Ws)
                                 - of_int (sum_mset Ls) / of_nat (size Ls)),
       SeedValue = Some v\<rparr>]"
proof -
  have eq: "group_keys WTeamID gs = group_keys LTeamID gs"
    using ts team_stats_fails by fastforce
  have nw: "length (filter (\<lambda>x. WTeamID x = k) gs) = size Ws"
    using won(1) by (metis length_map size_mset)
  have nl: "length (filter (\<lambda>x. LTeamID x = k) gs) = size Ls"
    using lost(1) by (metis length_map size_mset)
  have "filter (\<lambda>x. WTeamID x = k) gs \<noteq> []"
  proof
    assume "filter (\<lambda>x. WTeamID x = k) gs = []"
    then have "mset (map WScore (filter (\<lambda>x. WTeamID x = k) gs)) = {#}"
      by (simp only: list.map mset.simps)
    with won show False by simp
  qed
  then have "k \<in> WTeamID ` set gs"
    by (auto simp: filter_empty_conv)
  then have k: "filter (\<lambda>x. x = k) (group_keys WTeamID gs) = [k]"
    by (simp add: filter_eq_distinct distinct_group_keys set_group_keys)
  define row where "row = (\<lambda>k.
      \<lparr>stats_WTeamID = k,
       Wins = length (filter (\<lambda>g. WTeamID g = k) gs),
       TotalGames = Some (length (filter (\<lambda>g. WTeamID g = k) gs)
                          + length (filter (\<lambda>g. LTeamID g = k) gs)),
       WinPercentage = truediv (length (filter (\<lambda>g. WTeamID g = k) gs))
          (Some (length (filter (\<lambda>g. WTeamID g = k) gs)
                 + length (filter (\<lambda>g. LTeamID g = k) gs))),
       AvgPointsScored = mean (map WScore (filter (\<lambda>g. WTeamID g = k) gs)),
       AvgPointsAllowed = mean (map LScore (filter (\<lambda>g. LTeamID g = k) gs)),
       PointDifferential = minus_nan (mean (map WScore (filter (\<lambda>g. WTeamID g = k) gs)))
                                     (mean (map LScore (filter (\<lambda>g. LTeamID g = k) gs)))\<rparr>)"
  have key_row: "stats_WTeamID (row x) = x" for x
    by (simp add: row_def)
  from ts team_stats_rows [OF eq] have tsv: "ts = map row (group_keys WTeamID gs)"
    by (simp add: row_def)
  have "filter (\<lambda>t. stats_WTeamID t = k) ts = [row k]"
    unfolding tsv by (simp add: filter_map o_def key_row k)
  then have row: "filter (\<lambda>t. stats_WTeamID t = k) ts =
     [\<lparr>stats_WTeamID = k, Wins = size Ws, TotalGames = Some (size Ws + size Ls),
       WinPercentage = truediv (size Ws) (Some (size Ws + size Ls)),
       AvgPointsScored = Some (of_int (sum_mset Ws) / of_nat (size Ws)),
       AvgPointsAllowed = Some (of_int (sum_mset Ls) / of_nat (size Ls)),
       PointDifferential = Some (of_int (sum_mset Ws) / of_nat (size Ws)
                                 - of_int (sum_mset Ls) / of_nat (size Ls))\<rparr>]"
    by (simp add: row_def nw nl mean_mset [OF won] mean_mset [OF lost] minus_nan_def)
  from code(1) obtain e where e: "filter (\<lambda>e. TeamID e = k) seeds = [e]" "Seed e = c"
    by (cases "filter (\<lambda>e. TeamID e = k) seeds") auto
  then have "e \<in> set (filter (\<lambda>e. TeamID e = k) seeds)" by simp
  then have te: "TeamID e = k" by simp
  from apply_seed_value_filter [OF vs, of "\<lambda>e. TeamID e = k"] e code(2)
  have sv: "filter (\<lambda>(e, v). TeamID e = k) vs = [(e, v)]"
    by (simp add: then_do_def)
  show ?thesis
    unfolding seed_annotator_filter row sv
    by (simp add: seed_annotator_def merge_left_def te)
qed

section \<open>Runs of the notebook\<close>

lemma run_notebook_independent: "run_notebook f a = run_notebook f b"
  by (auto simp: run_notebook_def run_pipeline_cells_def cell_load_def cell_team_stats_def
      cell_seeds_def cell_join_def cell_features_def then_do_def split: sum.splits)

lemma run_notebook_model_data:
  "map_sum id v_model_data (run_notebook f k)
     = map_sum id Some (pipeline (season_file f) (tourney_file f) (seeds_file f))"
  by (auto simp: run_notebook_def run_pipeline_cells_def cell_load_def cell_team_stats_def
      cell_seeds_def cell_join_def cell_features_def then_do_def pipeline_def joined_table_def
      split: sum.splits)

text \<open>
  What a successful run leaves in the kernel: \<open>seeds\<close> with its new column and
  \<open>tourney_results\<close> rebound, on which the join of the pipeline cells finds no
  column \<^verbatim>\<open>WTeamID\<close>.
\<close>

lemma run_notebook_leaves:
  assumes run: "run_notebook f k = Inr k1"
  shows "v_seeds k1 \<noteq> Some (Unvalued (seeds_file f))
       \<and> v_tourney_results k1 \<noteq> Some (Raw (tourney_file f))
       \<and> run_pipeline_cells k1 = Inl (KeyError ''WTeamID'')"
proof -
  from run obtain ts vs where ts: "team_stats (season_file f) = Inr ts"
    and vs: "apply_seed_value (seeds_file f) = Inr vs"
    and k1: "k1 = k\<lparr>v_season_results := Some (season_file f),
        v_tourney_results := Some (Featured (map (\<lambda>j. (j, differences j))
           (matchup_joiner (tourney_file f) (seed_annotator ts vs)))),
        v_seeds := Some (Valued vs),
        v_team_stats := Some (Seeded (seed_annotator ts vs)),
        v_model_data := Some (model_data (matchup_joiner (tourney_file f) (seed_annotator ts vs)))\<rparr>"
    by (auto simp: run_notebook_def run_pipeline_cells_def cell_load_def cell_team_stats_def
        cell_seeds_def cell_join_def cell_features_def then_do_def split: sum.splits)
  have again_vs: "apply_seed_value (map fst vs) = Inr vs"
    using apply_seed_value_entries [OF vs] vs by simp
  show ?thesis
    unfolding k1
    by (simp add: run_pipeline_cells_def cell_team_stats_def cell_seeds_def cell_join_def
        then_do_def ts again_vs)
qed

section \<open>Claims about the Team Season Aggregator\<close>

text \<open>
  Claim C1 at a failing input. After the one game of \<open>loss_only_season\<close> team 2 has
  lost once and never won, and the claim gives it a row with no win and one game
  played. The code counts that game: \<open>total_games\<close>, made with \<^verbatim>\<open>fill_value=0\<close>,
  holds the entry (2, 1). But the sum of the two differently named indexes has no index
  name, its key column is called \<^verbatim>\<open>index\<close>, and the merge on \<^verbatim>\<open>WTeamID\<close> raises
  \<^verbatim>\<open>KeyError\<close>: the aggregator returns no table at all.
\<close>

theorem team_stats_loss_only_season:
  "map WTeamID loss_only_season = [1] \<and> map LTeamID loss_only_season = [2]
   \<and> table_rows (total_games loss_only_season) = [(1, 1), (2, 1)]
   \<and> key_column (total_games loss_only_season) = ''index''
   \<and> team_stats loss_only_season = Inl (KeyError ''WTeamID'')"
  by (simp add: loss_only_season_def agg_defs)

text \<open>
  Claim C2 at a failing input. The column \<^verbatim>\<open>AvgPointsAllowed\<close> is the mean of
  \<^verbatim>\<open>LScore\<close> over the games the team lost, which is the team's own score in those
  games. In \<open>two_team_season\<close> team 1 lost one game 50 to 70 and team 2 lost one game
  60 to 80: the code's averages are 50 and 60, the means of the winning opponents' scores
  are 70 and 80.
\<close>

theorem avg_points_allowed_is_own_losing_score:
  "map_sum id (map (\<lambda>r. (stats_WTeamID r, AvgPointsAllowed r))) (team_stats two_team_season)
     = Inr [(1, Some 50), (2, Some 60)]
   \<and> mean (map WScore (filter (\<lambda>g. LTeamID g = 1) two_team_season)) = Some 70
   \<and> mean (map WScore (filter (\<lambda>g. LTeamID g = 2) two_team_season)) = Some 80"
  by (simp add: team_stats_two_team_season two_team_stats_def)
     (simp add: two_team_season_def mean_def)

text \<open>
  Claim C8. Every row the aggregator produces has a positive number of games played and
  a win percentage in the closed interval from 0 to 1. A row with no game played is
  never produced (each row comes from \<open>win_counts\<close>, so its team won a game), which
  leaves the claim's second half without a case: the division itself has no check, and
  \<open>truediv\<close> would yield a non-finite value without raising.
\<close>

theorem win_percentage_in_unit_interval:
  assumes "team_stats season_results = Inr rows" and "r \<in> set rows"
  shows "\<exists>n p. TotalGames r = Some n \<and> 0 < n \<and> WinPercentage r = Some p \<and> 0 \<le> p \<and> p \<le> 1"
proof -
  note f = team_stats_fields [OF assms]
  from f(1) obtain x where "x \<in> set season_results" "WTeamID x = stats_WTeamID r"
    by auto
  then have "0 < length (filter (\<lambda>g. WTeamID g = stats_WTeamID r) season_results)"
    by (rule filter_nonempty_length)
  with f(2) have "0 < Wins r" by simp
  with f(3,4) show ?thesis
    by (simp add: truediv_def)
qed

theorem win_percentage_in_unit_interval_witness:
  "team_stats two_team_season = Inr two_team_stats
   \<and> hd two_team_stats \<in> set two_team_stats
   \<and> (\<exists>n p. TotalGames (hd two_team_stats) = Some n \<and> 0 < n
          \<and> WinPercentage (hd two_team_stats) = Some p \<and> 0 \<le> p \<and> p \<le> 1)"
proof -
  have h: "team_stats two_team_season = Inr two_team_stats"
    by (rule team_stats_two_team_season)
  have m: "hd two_team_stats \<in> set two_team_stats"
    by (simp add: two_team_stats_def)
  from h m win_percentage_in_unit_interval [OF h m] show ?thesis
    by blast
qed

section \<open>Claims about the seed parser\<close>




text \<open>
  Claim C10. The parser never looks at the length of the code: on a code of two
  characters whose second is a decimal digit, the slice is that one digit and the
  result is its value.
\<close>

theorem seed_value_single_digit:
  assumes "is_digit d"
  shows "seed_value [r, d] = Inr (int (digit_val d))"
  using assms
  by (simp add: seed_value_def py_int_def strip_def to_ascii_digit digit_not_space
      digit_not_sign int_body_def)

theorem seed_value_single_digit_witness:
  "is_digit CHR ''1'' \<and> seed_value ''W1'' = Inr 1"
proof -
  have d: "is_digit CHR ''1''"
    by (simp add: is_digit_def)
  from seed_value_single_digit [OF d, of "CHR ''W''"] d show ?thesis
    by (simp add: digit_val_def)
qed

section \<open>Claims about the joins\<close>







section \<open>Claims about the feature rows\<close>

text \<open>
  Claim C6. When a joined row is mirrored, the winner's statistics taking the place of
  the loser's and the loser's the place of the winner's, each of the five differences
  is negated. Where the attribute is present on both sides, with the values \<open>a\<close> for
  the winner and \<open>b\<close> for the loser, the difference is \<open>a - b\<close> and the mirrored
  row's is \<open>- (a - b)\<close>; where a side is missing the difference is missing in both rows.
\<close>

theorem differences_swap_negates:
  assumes "W j' = L j" and "L j' = W j"
  shows "(\<forall>a b. column WinPercentage (W j) = Some a \<and> column WinPercentage (L j) = Some b \<longrightarrow>
            WinPercentage_Diff (differences j) = Some (a - b)
          \<and> WinPercentage_Diff (differences j') = Some (- (a - b)))
    \<and> (\<forall>a b. column AvgPointsScored (W j) = Some a \<and> column AvgPointsScored (L j) = Some b \<longrightarrow>
            AvgPointsScored_Diff (differences j) = Some (a - b)
          \<and> AvgPointsScored_Diff (differences j') = Some (- (a - b)))
    \<and> (\<forall>a b. column AvgPointsAllowed (W j) = Some a \<and> column AvgPointsAllowed (L j) = Some b \<longrightarrow>
            AvgPointsAllowed_Diff (differences j) = Some (a - b)
          \<and> AvgPointsAllowed_Diff (differences j') = Some (- (a - b)))
    \<and> (\<forall>a b. column PointDifferential (W j) = Some a \<and> column PointDifferential (L j) = Some b \<longrightarrow>
            PointDifferential_Diff (differences j) = Some (a - b)
          \<and> PointDifferential_Diff (differences j') = Some (- (a - b)))
    \<and> (\<forall>a b. column SeedValue (W j) = Some a \<and> column SeedValue (L j) = Some b \<longrightarrow>
            SeedValue_Diff (differences j) = Some (a - b)
          \<and> SeedValue_Diff (differences j') = Some (- (a - b)))
    \<and> WinPercentage_Diff (differences j') = map_option uminus (WinPercentage_Diff (differences j))
    \<and> AvgPointsScored_Diff (differences j') = map_option uminus (AvgPointsScored_Diff (differences j))
    \<and> AvgPointsAllowed_Diff (differences j')
        = map_option uminus (AvgPointsAllowed_Diff (differences j))
    \<and> PointDifferential_Diff (differences j')
        = map_option uminus (PointDifferential_Diff (differences j))
    \<and> SeedValue_Diff (differences j') = map_option uminus (SeedValue_Diff (differences j))"
proof -
  have present: "minus_nan x y = Some (a - b) \<and> minus_nan y x = Some (- (a - b))"
    if "x = Some a \<and> y = Some b" for x y :: "'a::ab_group_add option" and a b
    using that by (simp add: minus_nan_def)
  have mirrored: "minus_nan y x = map_option uminus (minus_nan x y)"
    for x y :: "'a::ab_group_add option"
    by (simp add: minus_nan_def split: option.splits)
  have fields: "WinPercentage_Diff (differences i)
        = minus_nan (column WinPercentage (W i)) (column WinPercentage (L i))"
    "AvgPointsScored_Diff (differences i)
        = minus_nan (column AvgPointsScored (W i)) (column AvgPointsScored (L i))"
    "AvgPointsAllowed_Diff (differences i)
        = minus_nan (column AvgPointsAllowed (W i)) (column AvgPointsAllowed (L i))"
    "PointDifferential_Diff (differences i)
        = minus_nan (column PointDifferential (W i)) (column PointDifferential (L i))"
    "SeedValue_Diff (differences i) = minus_nan (column SeedValue (W i)) (column SeedValue (L i))"
    for i
    by (simp_all add: differences_def)
  show ?thesis
    unfolding fields assms
    by (intro conjI allI impI mirrored; (erule present [THEN conjunct1] present [THEN conjunct2])?)
qed

text \<open>The theorem at the joined row of the scenario and its mirror, feature by feature.\<close>

theorem differences_swap_negates_witness:
  "W scenario_mirrored = L scenario_joined \<and> L scenario_mirrored = W scenario_joined
   \<and> column WinPercentage (W scenario_joined) = Some (3 / 4)
   \<and> column WinPercentage (L scenario_joined) = Some (1 / 4)
   \<and> differences scenario_joined =
       \<lparr>WinPercentage_Diff = Some (1 / 2), AvgPointsScored_Diff = Some 15,
        AvgPointsAllowed_Diff = Some (- 15), PointDifferential_Diff = Some 30,
        SeedValue_Diff = Some (- 5)\<rparr>
   \<and> differences scenario_mirrored =
       \<lparr>WinPercentage_Diff = Some (- (1 / 2)), AvgPointsScored_Diff = Some (- 15),
        AvgPointsAllowed_Diff = Some 15, PointDifferential_Diff = Some (- 30),
        SeedValue_Diff = Some 5\<rparr>"
proof -
  have a: "W scenario_mirrored = L scenario_joined" and b: "L scenario_mirrored = W scenario_joined"
    by (simp_all add: scenario_mirrored_def scenario_joined_def)
  have p: "column WinPercentage (W scenario_joined) = Some (3 / 4)"
    "column WinPercentage (L scenario_joined) = Some (1 / 4)"
    "column AvgPointsScored (W scenario_joined) = Some 80"
    "column AvgPointsScored (L scenario_joined) = Some 65"
    "column AvgPointsAllowed (W scenario_joined) = Some 60"
    "column AvgPointsAllowed (L scenario_joined) = Some 75"
    "column PointDifferential (W scenario_joined) = Some 20"
    "column PointDifferential (L scenario_joined) = Some (- 10)"
    "column SeedValue (W scenario_joined) = Some 2"
    "column SeedValue (L scenario_joined) = Some 7"
    by (simp_all add: scenario_joined_def scenario_A_def scenario_B_def column_def)
  note c = differences_swap_negates [OF a b]
  from c p(1,2) have wp: "WinPercentage_Diff (differences scenario_joined) = Some (3 / 4 - 1 / 4)
      \<and> WinPercentage_Diff (differences scenario_mirrored) = Some (- (3 / 4 - 1 / 4))"
    by blast
  from c p(3,4) have sc: "AvgPointsScored_Diff (differences scenario_joined) = Some (80 - 65)
      \<and> AvgPointsScored_Diff (differences scenario_mirrored) = Some (- (80 - 65))"
    by blast
  from c p(5,6) have al: "AvgPointsAllowed_Diff (differences scenario_joined) = Some (60 - 75)
      \<and> AvgPointsAllowed_Diff (differences scenario_mirrored) = Some (- (60 - 75))"
    by blast
  from c p(7,8) have pd: "PointDifferential_Diff (differences scenario_joined) = Some (20 - (- 10))
      \<and> PointDifferential_Diff (differences scenario_mirrored) = Some (- (20 - (- 10)))"
    by blast
  from c p(9,10) have sv: "SeedValue_Diff (differences scenario_joined) = Some (2 - 7)
      \<and> SeedValue_Diff (differences scenario_mirrored) = Some (- (2 - 7))"
    by blast
  have eq: "d = \<lparr>WinPercentage_Diff = WinPercentage_Diff d,
      AvgPointsScored_Diff = AvgPointsScored_Diff d, AvgPointsAllowed_Diff = AvgPointsAllowed_Diff d,
      PointDifferential_Diff = PointDifferential_Diff d, SeedValue_Diff = SeedValue_Diff d\<rparr>"
    for d :: diff_row
    by simp
  have "differences scenario_joined =
       \<lparr>WinPercentage_Diff = Some (1 / 2), AvgPointsScored_Diff = Some 15,
        AvgPointsAllowed_Diff = Some (- 15), PointDifferential_Diff = Some 30,
        SeedValue_Diff = Some (- 5)\<rparr>"
    by (subst eq) (simp add: wp sc al pd sv)
  moreover have "differences scenario_mirrored =
       \<lparr>WinPercentage_Diff = Some (- (1 / 2)), AvgPointsScored_Diff = Some (- 15),
        AvgPointsAllowed_Diff = Some 15, PointDifferential_Diff = Some (- 30),
        SeedValue_Diff = Some 5\<rparr>"
    by (subst eq) (simp add: wp sc al pd sv)
  ultimately show ?thesis
    using a b p(1,2) by simp
qed

text \<open>
  Claim C7. Team \<open>A\<close> has three wins with scores 70, 80, 90, one loss with score 60
  and seed "W02"; team \<open>B\<close> has one win with score 65, three losses with scores 70, 75,
  80 and seed "W07"; the one tournament matchup is \<open>A\<close> beating \<open>B\<close>. The claim
  names no opponents and no other seeds, so the theorem is about every game log and seed
  table with these games and seeds in which the run comes to an end: every team of the
  log has won a game and lost a game, and every seed code parses. The pipeline then
  emits exactly one feature row, with the six values of the claim.
\<close>

theorem end_to_end_scenario:
  assumes every: "WTeamID ` set season_results = LTeamID ` set season_results"
    and parse: "\<forall>e\<in>set seeds. \<exists>v. seed_value (Seed e) = Inr v"
    and g: "WTeamID g = A" "LTeamID g = B"
    and A: "mset (map WScore (filter (\<lambda>x. WTeamID x = A) season_results)) = {#70, 80, 90#}"
           "mset (map LScore (filter (\<lambda>x. LTeamID x = A) season_results)) = {#60#}"
           "map Seed (filter (\<lambda>e. TeamID e = A) seeds) = [''W02'']"
    and B: "mset (map WScore (filter (\<lambda>x. WTeamID x = B) season_results)) = {#65#}"
           "mset (map LScore (filter (\<lambda>x. LTeamID x = B) season_results)) = {#70, 75, 80#}"
           "map Seed (filter (\<lambda>e. TeamID e = B) seeds) = [''W07'']"
  shows "pipeline season_results [g] seeds =
     Inr [\<lparr>WinPercentage_Diff = Some (1 / 2), AvgPointsScored_Diff = Some 15,
           AvgPointsAllowed_Diff = Some (- 15), PointDifferential_Diff = Some 30,
           SeedValue_Diff = Some (- 5), Result = 1\<rparr>]"
proof -
  have "group_keys WTeamID season_results = group_keys LTeamID season_results"
    using every by (rule group_keys_cong_set)
  from team_stats_rows [OF this] obtain ts where ts: "team_stats season_results = Inr ts"
    by blast
  from apply_seed_value_total [OF parse] obtain vs where vs: "apply_seed_value seeds = Inr vs"
    by blast
  have s2: "seed_value ''W02'' = Inr 2" and s7: "seed_value ''W07'' = Inr 7"
    by (simp_all add: seed_defs)
  have ne: "{#70, 80, 90 :: int#} \<noteq> {#}" "{#60 :: int#} \<noteq> {#}" "{#65 :: int#} \<noteq> {#}"
    "{#70, 75, 80 :: int#} \<noteq> {#}"
    by simp_all
  note a = seeded_row_of_team [OF ts vs A(1) ne(1) A(2) ne(2) A(3) s2]
  note b = seeded_row_of_team [OF ts vs B(1) ne(3) B(2) ne(4) B(3) s7]
  note j = matchup_joiner_single [of g "seed_annotator ts vs", unfolded g, OF a b]
  show ?thesis
    unfolding pipeline_def joined_table_def
    by (simp add: ts vs then_do_def j model_data_def model_row_def differences_def column_def
        minus_nan_def truediv_def)
qed

text \<open>
  The theorem at the scenario with \<open>A\<close> = 1 and \<open>B\<close> = 2, whose regular-season
  games are played against the teams 3 and 4, the matchup being won 88 to 75.
\<close>

theorem end_to_end_scenario_witness:
  "scenario_tourney = [\<lparr>Season = 2020, WTeamID = 1, WScore = 88, LTeamID = 2, LScore = 75\<rparr>]
   \<and> pipeline scenario_season scenario_tourney scenario_seeds =
     Inr [\<lparr>WinPercentage_Diff = Some (1 / 2), AvgPointsScored_Diff = Some 15,
           AvgPointsAllowed_Diff = Some (- 15), PointDifferential_Diff = Some 30,
           SeedValue_Diff = Some (- 5), Result = 1\<rparr>]"
proof -
  have every: "WTeamID ` set scenario_season = LTeamID ` set scenario_season"
    by (auto simp: scenario_season_def)
  have parse: "\<forall>e\<in>set scenario_seeds. \<exists>v. seed_value (Seed e) = Inr v"
    by (simp add: scenario_seeds_def seed_defs)
  have g: "WTeamID \<lparr>Season = 2020, WTeamID = 1, WScore = 88, LTeamID = 2, LScore = 75\<rparr> = 1"
    "LTeamID \<lparr>Season = 2020, WTeamID = 1, WScore = 88, LTeamID = 2, LScore = 75\<rparr> = 2"
    by simp_all
  have A: "mset (map WScore (filter (\<lambda>x. WTeamID x = 1) scenario_season)) = {#70, 80, 90#}"
    "mset (map LScore (filter (\<lambda>x. LTeamID x = 1) scenario_season)) = {#60#}"
    "map Seed (filter (\<lambda>e. TeamID e = 1) scenario_seeds) = [''W02'']"
    by (simp_all add: scenario_season_def scenario_seeds_def)
  have B: "mset (map WScore (filter (\<lambda>x. WTeamID x = 2) scenario_season)) = {#65#}"
    "mset (map LScore (filter (\<lambda>x. LTeamID x = 2) scenario_season)) = {#70, 75, 80#}"
    "map Seed (filter (\<lambda>e. TeamID e = 2) scenario_seeds) = [''W07'']"
    by (simp_all add: scenario_season_def scenario_seeds_def)
  from end_to_end_scenario [OF every parse g A B] show ?thesis
    by (simp add: scenario_tourney_def)
qed

section \<open>Claims about whole runs\<close>

text \<open>
  Claim C9, as the code has it. The cells of the pipeline are not a pure function of
  their input tables: they add \<^verbatim>\<open>SeedValue\<close> to \<open>seeds\<close> in place and rebind
  \<open>tourney_results\<close> to the joined table, so on the kernel a successful run has left
  the loaded tables are no longer what was loaded, and executing the pipeline cells again
  raises \<^verbatim>\<open>KeyError\<close> instead of giving the same output. What is deterministic is a run
  of the whole notebook from its loading cell: from any two kernel states it ends in the
  same state or the same exception, running it again on the state it left gives the same
  result, and the \<open>model_data\<close> it leaves is the function \<open>pipeline\<close> of the three
  loaded tables.
\<close>

theorem run_from_load_deterministic:
  "run_notebook f k = run_notebook f k'
   \<and> then_do (run_notebook f k) (run_notebook f) = run_notebook f k
   \<and> map_sum id v_model_data (run_notebook f k)
       = map_sum id Some (pipeline (season_file f) (tourney_file f) (seeds_file f))
   \<and> (\<forall>k1. run_notebook f k = Inr k1 \<longrightarrow>
         v_seeds k1 \<noteq> Some (Unvalued (seeds_file f))
       \<and> v_tourney_results k1 \<noteq> Some (Raw (tourney_file f))
       \<and> run_pipeline_cells k1 = Inl (KeyError ''WTeamID''))"
proof -
  have again: "then_do (run_notebook f k) (run_notebook f) = run_notebook f k"
  proof (cases "run_notebook f k")
    case (Inl e)
    then show ?thesis by (simp add: then_do_def)
  next
    case (Inr k1)
    with run_notebook_independent [of f k1 k] show ?thesis by (simp add: then_do_def)
  qed
  from run_notebook_independent [of f k k'] again run_notebook_model_data [of f k]
    run_notebook_leaves [of f k]
  show ?thesis
    by blast
qed

text \<open>
  The theorem for the scenario, run on a fresh kernel and on one that still holds the
  statistics of an earlier run.
\<close>

theorem run_from_load_deterministic_witness:
  "run_notebook scenario_files fresh_kernel
     = run_notebook scenario_files (fresh_kernel\<lparr>v_team_stats := Some (Stats two_team_stats)\<rparr>)
   \<and> map_sum id v_model_data (run_notebook scenario_files fresh_kernel)
     = Inr (Some [\<lparr>WinPercentage_Diff = Some (1 / 2), AvgPointsScored_Diff = Some 15,
           AvgPointsAllowed_Diff = Some (- 15), PointDifferential_Diff = Some 30,
           SeedValue_Diff = Some (- 5), Result = 1\<rparr>])
   \<and> (\<exists>k1. run_notebook scenario_files fresh_kernel = Inr k1
          \<and> run_pipeline_cells k1 = Inl (KeyError ''WTeamID''))"
proof -
  have p: "pipeline scenario_season scenario_tourney scenario_seeds =
     Inr [\<lparr>WinPercentage_Diff = Some (1 / 2), AvgPointsScored_Diff = Some 15,
           AvgPointsAllowed_Diff = Some (- 15), PointDifferential_Diff = Some 30,
           SeedValue_Diff = Some (- 5), Result = 1\<rparr>]"
    by (simp add: scenario_season_def scenario_tourney_def scenario_seeds_def
        agg_defs pipe_defs seed_defs)
  note d = run_from_load_deterministic
    [of scenario_files fresh_kernel "fresh_kernel\<lparr>v_team_stats := Some (Stats two_team_stats)\<rparr>"]
  from d have e1: "run_notebook scenario_files fresh_kernel
      = run_notebook scenario_files (fresh_kernel\<lparr>v_team_stats := Some (Stats two_team_stats)\<rparr>)"
    by blast
  from d have e2: "map_sum id v_model_data (run_notebook scenario_files fresh_kernel)
      = map_sum id Some (pipeline (season_file scenario_files) (tourney_file scenario_files)
          (seeds_file scenario_files))"
    by blast
  have e3: "map_sum id v_model_data (run_notebook scenario_files fresh_kernel)
      = Inr (Some [\<lparr>WinPercentage_Diff = Some (1 / 2), AvgPointsScored_Diff = Some 15,
           AvgPointsAllowed_Diff = Some (- 15), PointDifferential_Diff = Some 30,
           SeedValue_Diff = Some (- 5), Result = 1\<rparr>])"
    unfolding e2 by (simp add: p scenario_files_def)
  then obtain k1 where k1: "run_notebook scenario_files fresh_kernel = Inr k1"
    by (cases "run_notebook scenario_files fresh_kernel") auto
  with d have "run_pipeline_cells k1 = Inl (KeyError ''WTeamID'')"
    by blast
  with k1 have e4: "\<exists>k1. run_notebook scenario_files fresh_kernel = Inr k1
          \<and> run_pipeline_cells k1 = Inl (KeyError ''WTeamID'')"
    by blast
  from e1 e3 e4 show ?thesis
    by (intro conjI)
qed

text \<open>
  Claim C9 as stated fails for the pipeline cells: on the scenario's tables they give the
  feature table once, and executed a second time on the kernel they left, with the same
  three tables loaded, they raise \<^verbatim>\<open>KeyError\<close>.
\<close>

theorem pipeline_cells_rerun_raises:
  "map_sum id v_model_data
     (then_do (cell_load scenario_files fresh_kernel) run_pipeline_cells)
     = Inr (Some [\<lparr>WinPercentage_Diff = Some (1 / 2), AvgPointsScored_Diff = Some 15,
           AvgPointsAllowed_Diff = Some (- 15), PointDifferential_Diff = Some 30,
           SeedValue_Diff = Some (- 5), Result = 1\<rparr>])
   \<and> then_do (then_do (cell_load scenario_files fresh_kernel) run_pipeline_cells)
        run_pipeline_cells
     = Inl (KeyError ''WTeamID'')"
proof -
  have p: "pipeline scenario_season scenario_tourney scenario_seeds =
     Inr [\<lparr>WinPercentage_Diff = Some (1 / 2), AvgPointsScored_Diff = Some 15,
           AvgPointsAllowed_Diff = Some (- 15), PointDifferential_Diff = Some 30,
           SeedValue_Diff = Some (- 5), Result = 1\<rparr>]"
    by (simp add: scenario_season_def scenario_tourney_def scenario_seeds_def
        agg_defs pipe_defs seed_defs)
  have first: "map_sum id v_model_data (run_notebook scenario_files fresh_kernel)
     = Inr (Some [\<lparr>WinPercentage_Diff = Some (1 / 2), AvgPointsScored_Diff = Some 15,
           AvgPointsAllowed_Diff = Some (- 15), PointDifferential_Diff = Some 30,
           SeedValue_Diff = Some (- 5), Result = 1\<rparr>])"
    unfolding run_notebook_model_data by (simp add: p scenario_files_def)
  then obtain k1 where k1: "run_notebook scenario_files fresh_kernel = Inr k1"
    by (cases "run_notebook scenario_files fresh_kernel") auto
  from run_notebook_leaves [OF k1] have "run_pipeline_cells k1 = Inl (KeyError ''WTeamID'')"
    by blast
  with k1 have second: "then_do (run_notebook scenario_files fresh_kernel) run_pipeline_cells
      = Inl (KeyError ''WTeamID'')"
    by (simp add: then_do_def)
  from first second show ?thesis
    unfolding run_notebook_def by (intro conjI)
qed

end
